theory Spec2Isabelle
  imports Main "HOL-Library.Word" "HOL-Library.Signed_Division"
begin

section \<open>Machine types and the curses interface\<close>

text \<open>
  The header \<^verbatim>\<open>matrix_display\<close> (the box-drawing variant, which has \<^verbatim>\<open>printline\<close> and
  \<^verbatim>\<open>BoxStyle\<close>) is embedded function by function. A C++ \<^verbatim>\<open>int\<close> is a 32-bit word read with
  \<open>sint\<close>; signed overflow is written as two's complement wrap-around. \<^verbatim>\<open>size_t\<close> is a 64-bit
  word, \<^verbatim>\<open>wchar_t\<close> a 32-bit code point and a \<^verbatim>\<open>std::wstring\<close> a list of them.
\<close>

type_synonym c_int = "32 word"
type_synonym size_t = "64 word"
type_synonym wchar_t = "32 word"
type_synonym wstring = "wchar_t list"

text \<open>
  A value that was never written is \<open>Indeterminate\<close>. It is needed for the member \<^verbatim>\<open>n\<close> of
  \<^verbatim>\<open>Color\<close>: the constructor's parameter has the same name and the member has no initialiser.
\<close>

datatype 'a cval = Val 'a | Indeterminate

text \<open>
  The calls into curses are recorded in the order in which they are made, each with its
  arguments as the caller wrote them. \<^verbatim>\<open>COLOR_PAIR\<close> and \<^verbatim>\<open>A_BOLD\<close> are macros of curses and
  are kept symbolic; \<^verbatim>\<open>init_pair\<close> has the parameters pair, foreground \<open>f\<close> and background \<open>b\<close>
  in this order, which the selectors of \<open>Init_pair\<close> name.
\<close>

datatype attr = COLOR_PAIR "c_int cval" | A_BOLD

datatype event =
    Start_color
  | Init_pair (init_pair_pair: c_int) (init_pair_f: c_int) (init_pair_b: c_int)
  | Attron attr
  | Attroff attr
  | Addwstr wstring
  | Addch "32 word"

definition COLOR_BLACK :: c_int where
  "COLOR_BLACK = 0"

definition COLOR_RED :: c_int where
  "COLOR_RED = 1"

text \<open>
  \<^verbatim>\<open>assert\<close> is taken as enabled and aborts with \<open>assertion_failed\<close>. The standard containers
  throw \<^verbatim>\<open>std::length_error\<close> when asked for more than \<^verbatim>\<open>max_size()\<close> elements, which is what a
  negative \<^verbatim>\<open>int\<close> count becomes after its conversion to \<^verbatim>\<open>size_t\<close>.
\<close>

datatype error = assertion_failed | length_error

text \<open>
  An operation with effects returns the calls it has made and either the error that stopped it
  or its result.
\<close>

type_synonym 'a io = "event list \<times> (error + 'a)"

definition returns :: "'a \<Rightarrow> 'a io" where
  "returns x = ([], Inr x)"

definition emit :: "event \<Rightarrow> unit io" where
  "emit ev = ([ev], Inr ())"

definition bind_io :: "'a io \<Rightarrow> ('a \<Rightarrow> 'b io) \<Rightarrow> 'b io" where
  "bind_io m k =
     (case m of
        (t, Inl e) \<Rightarrow> (t, Inl e)
      | (t, Inr x) \<Rightarrow> (case k x of (t', r) \<Rightarrow> (t @ t', r)))"

definition seq_io :: "unit io \<Rightarrow> 'a io \<Rightarrow> 'a io" where
  "seq_io m k = bind_io m (\<lambda>_. k)"

definition lift_io :: "error + 'a \<Rightarrow> 'a io" where
  "lift_io r = ([], r)"

text \<open>
  The end of a block scope: the destructor \<open>d\<close> runs after the body \<open>m\<close>, also when the body
  leaves by an exception, which then goes on to the caller.
\<close>

definition scope_exit :: "'a io \<Rightarrow> unit io \<Rightarrow> 'a io" where
  "scope_exit m d =
     (case m of
        (t, Inl e) \<Rightarrow> (t @ fst d, Inl e)
      | (t, Inr x) \<Rightarrow> (t @ fst d, case snd d of Inl e \<Rightarrow> Inl e | Inr _ \<Rightarrow> Inr x))"

definition bind_res :: "error + 'a \<Rightarrow> ('a \<Rightarrow> error + 'b) \<Rightarrow> error + 'b" where
  "bind_res r k = (case r of Inl e \<Rightarrow> Inl e | Inr x \<Rightarrow> k x)"

text \<open>
  The bounds of libstdc++ on an LP64 target: \<^verbatim>\<open>max_size()\<close> of \<^verbatim>\<open>std::wstring\<close> and of
  \<^verbatim>\<open>std::vector<Cell>\<close> (a \<^verbatim>\<open>Cell\<close> takes 40 bytes). Only two facts about them are used below:
  every count that fits a non-negative \<^verbatim>\<open>int\<close> is allowed, and no count from \<open>2 ^ 62\<close> on is.
\<close>

definition wstring_max_size :: nat where
  "wstring_max_size = 2 ^ 60 - 1"

definition vector_max_size :: nat where
  "vector_max_size = (2 ^ 63 - 1) div 40"

text \<open>\<^verbatim>\<open>std::wstring(n, c)\<close> and \<^verbatim>\<open>std::vector<T>(n, x)\<close>.\<close>

definition wstring_fill :: "size_t \<Rightarrow> wchar_t \<Rightarrow> error + wstring" where
  "wstring_fill n c =
     (if wstring_max_size < unat n then Inl length_error else Inr (replicate (unat n) c))"

definition vector_fill :: "size_t \<Rightarrow> 'a \<Rightarrow> error + 'a list" where
  "vector_fill n x =
     (if vector_max_size < unat n then Inl length_error else Inr (replicate (unat n) x))"

text \<open>
  \<^verbatim>\<open>s.length()\<close>, and \<^verbatim>\<open>s.c_str()\<close> as \<^verbatim>\<open>addwstr\<close> reads it: up to the first null character.
\<close>

definition wlength :: "wstring \<Rightarrow> size_t" where
  "wlength s = of_nat (length s)"

definition c_str :: "wstring \<Rightarrow> wstring" where
  "c_str s = takeWhile (\<lambda>c. c \<noteq> 0) s"

text \<open>Division of two \<^verbatim>\<open>int\<close>s truncates towards zero.\<close>

definition int_div :: "c_int \<Rightarrow> c_int \<Rightarrow> c_int" where
  "int_div a d = word_of_int (sint a sdiv sint d)"

text \<open>The loop \<^verbatim>\<open>for (auto i = 0; i < k; ++i) body\<close> from the counter value \<open>i\<close> on.\<close>

function for_lt :: "c_int \<Rightarrow> c_int \<Rightarrow> unit io \<Rightarrow> unit io" where
  "for_lt i k body = (if i <s k then seq_io body (for_lt (i + 1) k body) else returns ())"
  by pat_completeness auto

termination
proof (relation "measure (\<lambda>(i, k, body). nat (sint k - sint i))")
  show "wf (measure (\<lambda>(i :: c_int, k :: c_int, body :: unit io). nat (sint k - sint i)))"
    by simp
next
  fix i k :: c_int and body :: "unit io"
  assume less: "i <s k"
  then have ik: "sint i < sint k"
    by (simp add: word_sless_alt)
  have "sint k < 2 ^ 31"
    using sint_lt [of k] by simp
  moreover have "- (2 ^ 31) \<le> sint i"
    using sint_ge [of i] by simp
  ultimately have "signed_take_bit 31 (sint i + 1) = sint i + 1"
    using ik by (intro signed_take_bit_int_eq_self) auto
  then have "sint (i + 1) = sint i + 1"
    by (simp add: sint_word_ariths)
  with ik show "((i + 1, k, body), (i, k, body))
      \<in> measure (\<lambda>(i, k, body). nat (sint k - sint i))"
    by simp
qed

section \<open>Colours\<close>

record ColorScheme =
  scheme :: "c_int list"

text \<open>The loop of the constructor of \<^verbatim>\<open>ColorScheme\<close>, with the counter \<^verbatim>\<open>index\<close>.\<close>

fun ColorScheme_loop :: "c_int \<Rightarrow> c_int list \<Rightarrow> unit io" where
  "ColorScheme_loop index [] = returns ()"
| "ColorScheme_loop index (color # rest) =
     seq_io (emit (Init_pair index COLOR_BLACK color)) (ColorScheme_loop (index + 1) rest)"

definition ColorScheme_ctor :: "c_int list \<Rightarrow> ColorScheme io" where
  "ColorScheme_ctor scheme' =
     seq_io (emit Start_color)
       (seq_io (ColorScheme_loop 0 scheme') (returns \<lparr>scheme = scheme'\<rparr>))"

text \<open>
  \<^verbatim>\<open>Color\<close>: the member is \<open>Color_n\<close>. The constructor uses its parameter and leaves the member
  unwritten; the destructor reads the member.
\<close>

record Color =
  Color_n :: "c_int cval"

definition Color_ctor :: "c_int \<Rightarrow> Color io" where
  "Color_ctor n =
     seq_io (emit (Attron (COLOR_PAIR (Val n))))
       (seq_io (emit (Attron A_BOLD)) (returns \<lparr>Color_n = Indeterminate\<rparr>))"

definition Color_dtor :: "Color \<Rightarrow> unit io" where
  "Color_dtor this =
     seq_io (emit (Attroff (COLOR_PAIR (Color_n this)))) (emit (Attroff A_BOLD))"

section \<open>Text output and alignment\<close>

record Cell =
  content :: wstring
  color_code :: c_int

definition Cell_ctor :: "wstring \<Rightarrow> c_int \<Rightarrow> Cell" where
  "Cell_ctor s c = \<lparr>content = s, color_code = c\<rparr>"

definition blank :: wchar_t where
  "blank = 32"

definition n_chars :: "c_int \<Rightarrow> wchar_t \<Rightarrow> unit io" where
  "n_chars n c = bind_io (lift_io (wstring_fill (scast n) c)) (\<lambda>s. emit (Addwstr (c_str s)))"

definition addwch :: "wchar_t \<Rightarrow> unit io" where
  "addwch character = n_chars 1 character"

definition end_line :: "unit io" where
  "end_line = emit (Addch 10)"

text \<open>
  The alignment helpers at the types of their one caller, \<^verbatim>\<open>printline\<close>: the content is a
  \<^verbatim>\<open>std::wstring\<close> (the parameter is \<open>str\<close> here) and \<open>width\<close> an \<^verbatim>\<open>int\<close>. In every comparison
  and difference with \<^verbatim>\<open>content.length()\<close> the \<^verbatim>\<open>int\<close> is first converted to \<^verbatim>\<open>size_t\<close>, and a
  \<^verbatim>\<open>size_t\<close> offset is cut to 32 bits when it is passed on as \<^verbatim>\<open>int\<close>. The sum
  \<^verbatim>\<open>left + content + right\<close> is plain concatenation: for a content of at most \<^verbatim>\<open>max_size()\<close>
  characters it has the length \<open>width\<close> once both paddings were built
  (\<open>positioned_padded_length\<close> below), so that \<^verbatim>\<open>operator+\<close> has nothing to refuse.
\<close>

definition positioned :: "wstring \<Rightarrow> c_int \<Rightarrow> c_int \<Rightarrow> error + wstring" where
  "positioned str width offset =
     (if scast width \<le> wlength str then Inr str
      else
        bind_res (wstring_fill (scast offset) blank) (\<lambda>left.
        bind_res (wstring_fill (scast width - (wlength str + scast offset)) blank) (\<lambda>right.
        Inr (left @ str @ right))))"

definition centered :: "wstring \<Rightarrow> c_int \<Rightarrow> error + wstring" where
  "centered str width =
     (let offset = (scast width - wlength str) div 2
      in positioned str width (ucast offset))"

definition aligned_right :: "wstring \<Rightarrow> c_int \<Rightarrow> error + wstring" where
  "aligned_right str width =
     (let offset = scast width - wlength str
      in positioned str width (ucast offset))"

definition aligned_left :: "wstring \<Rightarrow> c_int \<Rightarrow> error + wstring" where
  "aligned_left str width = positioned str width 0"

datatype Aligned = Aligned_right | Aligned_left | Aligned_center

text \<open>
  The \<^verbatim>\<open>switch\<close> of \<^verbatim>\<open>printline\<close> has no \<^verbatim>\<open>break\<close>: control enters at the label of the alignment
  and runs through every assignment to \<open>s\<close> below it.
\<close>

definition printline_switch :: "Aligned \<Rightarrow> wstring \<Rightarrow> c_int \<Rightarrow> error + wstring" where
  "printline_switch alignment str width =
     (case alignment of
        Aligned_right \<Rightarrow>
          bind_res (aligned_right str width) (\<lambda>s.
          bind_res (aligned_left str width) (\<lambda>s.
          centered str width))
      | Aligned_left \<Rightarrow>
          bind_res (aligned_left str width) (\<lambda>s.
          centered str width)
      | Aligned_center \<Rightarrow> centered str width)"

definition printline :: "wstring \<Rightarrow> c_int \<Rightarrow> Aligned \<Rightarrow> unit io" where
  "printline str width alignment =
     bind_io (lift_io (printline_switch alignment str width)) (\<lambda>s. emit (Addwstr (c_str s)))"

section \<open>The matrix display\<close>

record Corners =
  top_left :: wchar_t
  top_right :: wchar_t
  bottom_left :: wchar_t
  bottom_right :: wchar_t

record Intersections =
  top_i :: wchar_t
  bottom_i :: wchar_t
  left_i :: wchar_t
  right_i :: wchar_t
  center_i :: wchar_t

record Borders =
  horizontal :: wchar_t
  vertical :: wchar_t

record BoxStyle =
  corners :: Corners
  intersections :: Intersections
  borders :: Borders

text \<open>The default member initialisers: the heavy box-drawing characters.\<close>

definition BoxStyle_default :: BoxStyle where
  "BoxStyle_default =
     \<lparr>corners = \<lparr>top_left = 0x250F, top_right = 0x2513,
                  bottom_left = 0x2517, bottom_right = 0x251B\<rparr>,
      intersections = \<lparr>top_i = 0x2533, bottom_i = 0x253B, left_i = 0x2523,
                        right_i = 0x252B, center_i = 0x254B\<rparr>,
      borders = \<lparr>horizontal = 0x2501, vertical = 0x2503\<rparr>\<rparr>"

record MatrixStyle =
  cell_width :: c_int
  cell_height :: c_int
  box_style :: BoxStyle

definition MatrixStyle_ctor :: "c_int \<Rightarrow> c_int \<Rightarrow> MatrixStyle" where
  "MatrixStyle_ctor cell_width' cell_height' =
     \<lparr>cell_width = cell_width', cell_height = cell_height', box_style = BoxStyle_default\<rparr>"

record MatrixDisplay =
  style :: MatrixStyle

definition MatrixDisplay_ctor :: "MatrixStyle \<Rightarrow> MatrixDisplay" where
  "MatrixDisplay_ctor style' = \<lparr>style = style'\<rparr>"

text \<open>
  \<^verbatim>\<open>n_rows\<close> returns the size of the first row, cut to \<^verbatim>\<open>int\<close>, after its assertion.
\<close>

definition n_rows :: "Cell list list \<Rightarrow> error + c_int" where
  "n_rows data =
     (case data of
        [] \<Rightarrow> Inl assertion_failed
      | row0 # _ \<Rightarrow> Inr (of_nat (length row0)))"

definition width_in_chars :: "MatrixDisplay \<Rightarrow> Cell list list \<Rightarrow> error + c_int" where
  "width_in_chars this data =
     bind_res (n_rows data) (\<lambda>r. Inr ((cell_width (style this) + 1) * r))"

text \<open>
  The loop of \<^verbatim>\<open>value_row\<close> over the cells, with the flag \<open>first\<close>. The object \<^verbatim>\<open>scoped\<close> lives
  to the end of the loop body.
\<close>

fun value_row_loop :: "MatrixDisplay \<Rightarrow> wchar_t \<Rightarrow> bool \<Rightarrow> Cell list \<Rightarrow> unit io" where
  "value_row_loop this intersection first [] = returns ()"
| "value_row_loop this intersection first (cell # rest) =
     seq_io (if first then returns () else addwch intersection)
       (seq_io
          (bind_io (Color_ctor (color_code cell)) (\<lambda>scoped.
             scope_exit
               (printline (content cell) (cell_width (style this)) Aligned_center)
               (Color_dtor scoped)))
          (value_row_loop this intersection False rest))"

definition value_row ::
  "MatrixDisplay \<Rightarrow> Cell list \<Rightarrow> wchar_t \<Rightarrow> wchar_t \<Rightarrow> wchar_t \<Rightarrow> unit io" where
  "value_row this row left intersection right =
     seq_io (addwch left)
       (seq_io (value_row_loop this intersection True row)
          (seq_io (addwch right) end_line))"

definition sep_row ::
  "MatrixDisplay \<Rightarrow> c_int \<Rightarrow> wchar_t \<Rightarrow> wchar_t \<Rightarrow> wchar_t \<Rightarrow> wchar_t \<Rightarrow> unit io" where
  "sep_row this n left plain intersection right =
     bind_io
       (lift_io
          (bind_res (wstring_fill (scast (cell_width (style this))) plain) (\<lambda>s.
           vector_fill (scast n) (Cell_ctor s 0))))
       (\<lambda>sep. value_row this sep left intersection right)"

definition top_row :: "MatrixDisplay \<Rightarrow> c_int \<Rightarrow> unit io" where
  "top_row this n =
     (let box = box_style (style this)
      in sep_row this n (top_left (corners box)) (horizontal (borders box))
           (top_i (intersections box)) (top_right (corners box)))"

definition bottom_row :: "MatrixDisplay \<Rightarrow> c_int \<Rightarrow> unit io" where
  "bottom_row this n =
     (let box = box_style (style this)
      in sep_row this n (bottom_left (corners box)) (horizontal (borders box))
           (bottom_i (intersections box)) (bottom_right (corners box)))"

definition middle_row :: "MatrixDisplay \<Rightarrow> c_int \<Rightarrow> unit io" where
  "middle_row this n =
     (let box = box_style (style this)
      in sep_row this n (left_i (intersections box)) (horizontal (borders box))
           (center_i (intersections box)) (right_i (intersections box)))"

text \<open>The first loop of \<^verbatim>\<open>values\<close>: every cell of the copied row gets a blank content.\<close>

fun padding_loop :: "MatrixDisplay \<Rightarrow> Cell list \<Rightarrow> error + Cell list" where
  "padding_loop this [] = Inr []"
| "padding_loop this (cell # rest) =
     bind_res (wstring_fill (scast (cell_width (style this))) blank) (\<lambda>s.
     bind_res (padding_loop this rest) (\<lambda>rest'.
     Inr (cell\<lparr>content := s\<rparr> # rest')))"

definition values_row :: "MatrixDisplay \<Rightarrow> Cell list \<Rightarrow> unit io" where
  "values_row this row =
     (let box = box_style (style this) in
      bind_io (lift_io (padding_loop this row)) (\<lambda>padding_row.
        let line_height = 1;
            top_pad = int_div (cell_height (style this) - line_height) 2
        in
          seq_io
            (for_lt 0 top_pad
               (value_row this padding_row (vertical (borders box)) (vertical (borders box))
                  (vertical (borders box))))
            (seq_io
               (value_row this row (vertical (borders box)) (vertical (borders box))
                  (vertical (borders box)))
               (let bottom_pad = cell_height (style this) - (top_pad + line_height)
                in for_lt 0 bottom_pad
                     (value_row this padding_row (vertical (borders box))
                        (vertical (borders box)) (vertical (borders box)))))))"

text \<open>The loop of \<^verbatim>\<open>print\<close> over the rows, with the flag \<open>first\<close>.\<close>

fun print_loop :: "MatrixDisplay \<Rightarrow> c_int \<Rightarrow> bool \<Rightarrow> Cell list list \<Rightarrow> unit io" where
  "print_loop this n first [] = returns ()"
| "print_loop this n first (row # rest) =
     seq_io (if first then returns () else middle_row this n)
       (seq_io (values_row this row) (print_loop this n False rest))"

definition print :: "MatrixDisplay \<Rightarrow> Cell list list \<Rightarrow> unit io" where
  "print this data =
     bind_io (lift_io (n_rows data)) (\<lambda>n.
       seq_io (top_row this n)
         (seq_io (print_loop this n True data) (bottom_row this n)))"

declare for_lt.simps [simp del]

section \<open>Observations on the recorded calls\<close>



definition lines_ended :: "event list \<Rightarrow> nat" where
  "lines_ended t = length (filter (\<lambda>ev. ev = Addch 10) t)"

definition chars_written :: "event list \<Rightarrow> wstring" where
  "chars_written t =
     concat (map (\<lambda>ev. case ev of Addwstr s \<Rightarrow> s | Addch c \<Rightarrow> [c] | _ \<Rightarrow> []) t)"


definition no_assert :: "'a io \<Rightarrow> bool" where
  "no_assert m = (snd m \<noteq> Inl assertion_failed)"

section \<open>Sequencing\<close>

lemma bind_io_Inr: "bind_io (t, Inr x) k = (t @ fst (k x), snd (k x))"
  by (simp add: bind_io_def split: prod.splits)

lemma bind_io_Inl: "bind_io (t, Inl e) k = (t, Inl e)"
  by (simp add: bind_io_def)

lemma seq_io_Inr: "seq_io (t, Inr x) k = (t @ fst k, snd k)"
  by (simp add: seq_io_def bind_io_Inr)

lemma seq_io_Inl: "seq_io (t, Inl e) k = (t, Inl e)"
  by (simp add: seq_io_def bind_io_Inl)


lemma seq_io_emit: "seq_io (emit ev) k = (ev # fst k, snd k)"
  by (simp add: emit_def seq_io_Inr)

lemma bind_io_lift_Inr: "bind_io (lift_io (Inr x)) k = k x"
  by (simp add: lift_io_def bind_io_Inr)

lemma bind_io_lift_Inl: "bind_io (lift_io (Inl e)) k = ([], Inl e)"
  by (simp add: lift_io_def bind_io_Inl)

lemma bind_res_Inr: "bind_res (Inr x) k = k x"
  by (simp add: bind_res_def)

lemma bind_res_Inl: "bind_res (Inl e) k = Inl e"
  by (simp add: bind_res_def)

lemma scope_exit_Inr: "scope_exit (t, Inr x) (t', Inr y) = (t @ t', Inr x)"
  by (simp add: scope_exit_def)

lemma scope_exit_Inl: "scope_exit (t, Inl e) (t', r) = (t @ t', Inl e)"
  by (simp add: scope_exit_def)

section \<open>Conversions between \<^verbatim>\<open>int\<close> and \<^verbatim>\<open>size_t\<close>\<close>

lemma uint_scast: "uint (scast (w::c_int) :: size_t) = sint w mod 2 ^ 64"
proof -
  have "uint (word_of_int (sint w) :: size_t) = take_bit 64 (sint w)"
    by (simp only: uint_word_of_int_eq len_bit0 len_num1 mult_1_right) simp
  then show ?thesis
    by (simp only: scast_eq take_bit_eq_mod)
qed

lemma unat_scast_nonneg:
  assumes "0 \<le> sint (w::c_int)"
  shows "unat (scast w :: size_t) = nat (sint w)"
proof -
  have "sint w < 2 ^ 31"
    using sint_lt [of w] by simp
  with assms have "sint w mod 2 ^ 64 = sint w"
    by (intro mod_pos_pos_trivial) auto
  then show ?thesis
    by (simp only: unat_eq_nat_uint uint_scast)
qed

lemma unat_scast_neg:
  assumes "sint (w::c_int) < 0"
  shows "unat (scast w :: size_t) = nat (2 ^ 64 + sint w)"
proof -
  have "- (2 ^ 31) \<le> sint w"
    using sint_ge [of w] by simp
  with assms have "(sint w + 2 ^ 64) mod 2 ^ 64 = sint w + 2 ^ 64"
    by (intro mod_pos_pos_trivial) auto
  then have "sint w mod 2 ^ 64 = 2 ^ 64 + sint w"
    by (simp add: add.commute)
  then show ?thesis
    by (simp only: unat_eq_nat_uint uint_scast)
qed

lemma nat_sint_less: "nat (sint (w::c_int)) < 2 ^ 31"
  using sint_lt [of w] by (simp add: nat_less_iff)


lemma unat_wlength_small: "length str < 2 ^ 31 \<Longrightarrow> unat (wlength str) = length str"
  by (simp add: wlength_def unat_of_nat)

lemma replicate_numeral: "replicate (numeral k) x = x # replicate (pred_numeral k) x"
  by (simp add: numeral_eq_Suc)

lemma wstring_fill_small: "unat n < 2 ^ 31 \<Longrightarrow> wstring_fill n c = Inr (replicate (unat n) c)"
  by (simp add: wstring_fill_def wstring_max_size_def)

lemma wstring_fill_large: "2 ^ 62 \<le> unat n \<Longrightarrow> wstring_fill n c = Inl length_error"
  by (simp add: wstring_fill_def wstring_max_size_def)

text \<open>A size below \<open>2 ^ 31\<close> survives the way through \<^verbatim>\<open>int\<close> and back.\<close>

lemma sint_ucast_small:
  assumes "unat (x::size_t) < 2 ^ 31"
  shows "sint (ucast x :: c_int) = int (unat x)"
proof -
  have ge: "- (2 ^ 31) \<le> uint x"
    by (rule order_trans [OF _ uint_nonnegative]) simp
  have "int (unat x) < int (2 ^ 31)"
    using assms by (simp only: of_nat_less_iff)
  then have lt: "uint x < 2 ^ 31"
    by simp
  have "sint (ucast x :: c_int) = signed_take_bit 31 (uint x)"
    using signed_ucast_eq [of x, where ?'c = 32 and ?'a = int] by simp
  also have "\<dots> = uint x"
    using ge lt by (rule signed_take_bit_int_eq_self)
  finally show ?thesis
    by simp
qed

lemma offset_through_int:
  assumes "unat (off::size_t) < 2 ^ 31"
  shows "0 \<le> sint (ucast off :: c_int)" and "nat (sint (ucast off :: c_int)) = unat off"
  using sint_ucast_small [OF assms] by simp_all

section \<open>The alignment helpers\<close>

text \<open>The two branches of \<^verbatim>\<open>positioned\<close>, in machine terms.\<close>

lemma positioned_fits: "scast width \<le> wlength str \<Longrightarrow> positioned str width offset = Inr str"
  by (simp add: positioned_def)

lemma positioned_pads:
  assumes w: "0 \<le> sint width" and off: "0 \<le> sint offset"
    and room: "unat (wlength str) + nat (sint offset) \<le> nat (sint width)"
    and short: "unat (wlength str) < nat (sint width)"
  shows "positioned str width offset =
    Inr (replicate (nat (sint offset)) blank @ str @
         replicate (nat (sint width) - (unat (wlength str) + nat (sint offset))) blank)"
proof -
  have W: "unat (scast width :: size_t) = nat (sint width)"
    using w by (rule unat_scast_nonneg)
  have O: "unat (scast offset :: size_t) = nat (sint offset)"
    using off by (rule unat_scast_nonneg)
  have Wlt: "nat (sint width) < 2 ^ 31"
    by (rule nat_sint_less)
  have "\<not> scast width \<le> wlength str"
    using short W by (simp add: word_le_nat_alt)
  moreover have sum: "unat (wlength str + scast offset) = unat (wlength str) + nat (sint offset)"
    using room Wlt O by (simp add: unat_add_lem [THEN iffD1])
  have le: "wlength str + scast offset \<le> scast width"
    using room W sum by (simp add: word_le_nat_alt)
  have R: "unat (scast width - (wlength str + scast offset))
      = nat (sint width) - (unat (wlength str) + nat (sint offset))"
    using le W sum by (simp add: unat_sub)
  have "wstring_fill (scast offset) blank = Inr (replicate (nat (sint offset)) blank)"
    using room Wlt O by (simp add: wstring_fill_small)
  moreover have "wstring_fill (scast width - (wlength str + scast offset)) blank
      = Inr (replicate (nat (sint width) - (unat (wlength str) + nat (sint offset))) blank)"
    using R Wlt by (simp add: wstring_fill_small)
  ultimately show ?thesis
    by (simp add: positioned_def bind_res_Inr)
qed

lemma centered_fits: "scast width \<le> wlength str \<Longrightarrow> centered str width = Inr str"
  by (simp add: centered_def positioned_fits)

lemma aligned_right_fits: "scast width \<le> wlength str \<Longrightarrow> aligned_right str width = Inr str"
  by (simp add: aligned_right_def positioned_fits)

lemma aligned_left_fits: "scast width \<le> wlength str \<Longrightarrow> aligned_left str width = Inr str"
  by (simp add: aligned_left_def positioned_fits)

lemma unat_gap:
  assumes w: "0 \<le> sint (width::c_int)" and short: "unat (wlength str) < nat (sint width)"
  shows "unat (scast width - wlength str) = nat (sint width) - unat (wlength str)"
proof -
  have "wlength str \<le> scast width"
    using short unat_scast_nonneg [OF w] by (simp add: word_le_nat_alt)
  then show ?thesis
    using unat_scast_nonneg [OF w] by (simp add: unat_sub)
qed

lemma centered_pads:
  assumes w: "0 \<le> sint width" and short: "unat (wlength str) < nat (sint width)"
  shows "centered str width =
    Inr (replicate ((nat (sint width) - unat (wlength str)) div 2) blank @ str @
         replicate (nat (sint width) - (unat (wlength str)
           + (nat (sint width) - unat (wlength str)) div 2)) blank)"
proof -
  define off :: size_t where "off = (scast width - wlength str) div 2"
  have off: "unat off = (nat (sint width) - unat (wlength str)) div 2"
    by (simp add: off_def unat_div unat_gap [OF w short])
  have small: "unat off < 2 ^ 31"
    using nat_sint_less [of width] off by simp
  note o = offset_through_int [OF small]
  have room: "unat (wlength str) + nat (sint (ucast off :: c_int)) \<le> nat (sint width)"
    unfolding o off using short by simp
  show ?thesis
    unfolding centered_def Let_def off_def [symmetric]
    by (simp only: positioned_pads [OF w o(1) room short] o off)
qed

lemma aligned_right_pads:
  assumes w: "0 \<le> sint width" and short: "unat (wlength str) < nat (sint width)"
  shows "aligned_right str width =
    Inr (replicate (nat (sint width) - unat (wlength str)) blank @ str)"
proof -
  define off :: size_t where "off = scast width - wlength str"
  have off: "unat off = nat (sint width) - unat (wlength str)"
    by (simp add: off_def unat_gap [OF w short])
  have small: "unat off < 2 ^ 31"
    using nat_sint_less [of width] off by simp
  note o = offset_through_int [OF small]
  have room: "unat (wlength str) + nat (sint (ucast off :: c_int)) \<le> nat (sint width)"
    unfolding o off using short by simp
  have "nat (sint width) - (unat (wlength str) + (nat (sint width) - unat (wlength str))) = 0"
    using short by simp
  then show ?thesis
    unfolding aligned_right_def Let_def off_def [symmetric]
    by (simp add: positioned_pads [OF w o(1) room short] o off)
qed

lemma aligned_left_pads:
  assumes w: "0 \<le> sint width" and short: "unat (wlength str) < nat (sint width)"
  shows "aligned_left str width =
    Inr (str @ replicate (nat (sint width) - unat (wlength str)) blank)"
proof -
  have "positioned str width 0 =
    Inr (replicate (nat (sint (0 :: c_int))) blank @ str @
         replicate (nat (sint width) - (unat (wlength str) + nat (sint (0 :: c_int)))) blank)"
    using w short by (intro positioned_pads) simp_all
  then show ?thesis
    by (simp add: aligned_left_def)
qed

lemma centered_total:
  assumes "0 \<le> sint width"
  shows "\<exists>s. centered str width = Inr s"
proof (cases "scast width \<le> wlength str")
  case True
  then show ?thesis
    by (simp add: centered_fits)
next
  case False
  then have "unat (wlength str) < nat (sint width)"
    using unat_scast_nonneg [OF assms] by (simp add: word_le_nat_alt)
  then show ?thesis
    using assms by (simp add: centered_pads)
qed


text \<open>With a negative width every string that can exist takes the padding branch and fails.\<close>

lemma positioned_negative_width:
  assumes w: "sint width < 0" and wf: "length str \<le> wstring_max_size"
  shows "positioned str width offset = Inl length_error"
proof -
  have W: "unat (scast width :: size_t) = nat (2 ^ 64 + sint width)"
    using w by (rule unat_scast_neg)
  have Wge: "2 ^ 64 - 2 ^ 31 \<le> unat (scast width :: size_t)"
    using sint_ge [of width] W by simp
  have L: "unat (wlength str) = length str"
    using wf by (simp add: wlength_def wstring_max_size_def unat_of_nat)
  have Lle: "unat (wlength str) < 2 ^ 60"
    using wf L by (simp add: wstring_max_size_def)
  have nofit: "\<not> scast width \<le> wlength str"
    using Wge Lle by (simp add: word_le_nat_alt)
  show ?thesis
  proof (cases "sint offset < 0")
    case True
    have "unat (scast offset :: size_t) = nat (2 ^ 64 + sint offset)"
      using True by (rule unat_scast_neg)
    then have "2 ^ 62 \<le> unat (scast offset :: size_t)"
      using sint_ge [of offset] by simp
    then have "wstring_fill (scast offset) blank = Inl length_error"
      by (rule wstring_fill_large)
    then show ?thesis
      using nofit by (simp add: positioned_def bind_res_Inl)
  next
    case False
    then have O: "unat (scast offset :: size_t) = nat (sint offset)"
      by (simp add: unat_scast_nonneg)
    have Olt: "unat (scast offset :: size_t) < 2 ^ 31"
      using O nat_sint_less [of offset] by simp
    have sum: "unat (wlength str + scast offset) = unat (wlength str) + unat (scast offset :: size_t)"
      using Lle Olt by (simp add: unat_add_lem [THEN iffD1])
    have "wlength str + scast offset \<le> scast width"
      using sum Lle Olt Wge by (simp add: word_le_nat_alt)
    then have "unat (scast width - (wlength str + scast offset))
        = unat (scast width :: size_t) - (unat (wlength str) + unat (scast offset :: size_t))"
      using sum by (simp add: unat_sub)
    then have "2 ^ 62 \<le> unat (scast width - (wlength str + scast offset))"
      using Lle Olt Wge by simp
    then have "wstring_fill (scast width - (wlength str + scast offset)) blank = Inl length_error"
      by (rule wstring_fill_large)
    moreover have "wstring_fill (scast offset) blank = Inr (replicate (unat (scast offset :: size_t)) blank)"
      using Olt by (rule wstring_fill_small)
    ultimately show ?thesis
      using nofit by (simp add: positioned_def bind_res_Inr bind_res_Inl)
  qed
qed

text \<open>A negative offset fails in the padding branch, whatever the width.\<close>

lemma positioned_negative_offset:
  assumes off: "sint offset < 0" and nofit: "\<not> scast width \<le> wlength str"
  shows "positioned str width offset = Inl length_error"
proof -
  have "unat (scast offset :: size_t) = nat (2 ^ 64 + sint offset)"
    using off by (rule unat_scast_neg)
  then have "2 ^ 62 \<le> unat (scast offset :: size_t)"
    using sint_ge [of offset] by simp
  then have "wstring_fill (scast offset) blank = Inl length_error"
    by (rule wstring_fill_large)
  then show ?thesis
    using nofit by (simp add: positioned_def bind_res_Inl)
qed

lemma unat_wlength_wf: "length str \<le> wstring_max_size \<Longrightarrow> unat (wlength str) = length str"
  by (simp add: wlength_def wstring_max_size_def unat_of_nat)

text \<open>
  So the concatenation in \<^verbatim>\<open>positioned\<close> never exceeds \<^verbatim>\<open>max_size()\<close>: whenever it is reached,
  the result has \<open>width\<close> characters.
\<close>

lemma positioned_padded_length:
  assumes wf: "length str \<le> wstring_max_size"
    and line: "positioned str width offset = Inr line"
    and nofit: "\<not> scast width \<le> wlength str"
  shows "length line = nat (sint width)"
proof -
  have w: "0 \<le> sint width"
    using positioned_negative_width [OF _ wf, of width offset] line by (cases "sint width < 0") auto
  have W: "unat (scast width :: size_t) = nat (sint width)"
    using w by (rule unat_scast_nonneg)
  have Wlt: "nat (sint width) < 2 ^ 31"
    by (rule nat_sint_less)
  have short: "unat (wlength str) < nat (sint width)"
    using nofit W by (simp add: word_le_nat_alt)
  have L: "unat (wlength str) = length str"
    using wf by (simp add: wlength_def wstring_max_size_def unat_of_nat)
  have off: "0 \<le> sint offset"
  proof (rule ccontr)
    assume "\<not> 0 \<le> sint offset"
    then have "unat (scast offset :: size_t) = nat (2 ^ 64 + sint offset)"
      by (simp add: unat_scast_neg)
    then have "2 ^ 62 \<le> unat (scast offset :: size_t)"
      using sint_ge [of offset] by simp
    then have "wstring_fill (scast offset) blank = Inl length_error"
      by (rule wstring_fill_large)
    then show False
      using line nofit by (simp add: positioned_def bind_res_Inl)
  qed
  have O: "unat (scast offset :: size_t) = nat (sint offset)"
    using off by (rule unat_scast_nonneg)
  have Olt: "nat (sint offset) < 2 ^ 31"
    by (rule nat_sint_less)
  have sum: "unat (wlength str + scast offset) = unat (wlength str) + nat (sint offset)"
    using short Wlt O Olt by (simp add: unat_add_lem [THEN iffD1])
  have room: "unat (wlength str) + nat (sint offset) \<le> nat (sint width)"
  proof (rule ccontr)
    assume "\<not> unat (wlength str) + nat (sint offset) \<le> nat (sint width)"
    then have gt: "scast width < wlength str + scast offset"
      using sum W by (simp add: word_less_nat_alt)
    then have "unat (scast width - (wlength str + scast offset))
        = nat (sint width) + 2 ^ 64 - (unat (wlength str) + nat (sint offset))"
      using sum W by (simp add: unat_sub_if_size word_less_nat_alt word_size)
    then have "2 ^ 62 \<le> unat (scast width - (wlength str + scast offset))"
      using short Wlt Olt by simp
    then have "wstring_fill (scast width - (wlength str + scast offset)) blank = Inl length_error"
      by (rule wstring_fill_large)
    moreover have "wstring_fill (scast offset) blank = Inr (replicate (nat (sint offset)) blank)"
      using O Olt by (simp add: wstring_fill_small)
    ultimately show False
      using line nofit by (simp add: positioned_def bind_res_Inl bind_res_Inr)
  qed
  show ?thesis
    using line positioned_pads [OF w off room short] room L by auto
qed

text \<open>Below the label of the alignment every assignment but the last is overwritten.\<close>

lemma printline_switch_eq:
  assumes "length str \<le> wstring_max_size"
  shows "printline_switch alignment str width = centered str width"
proof (cases "scast width \<le> wlength str")
  case True
  then show ?thesis
    by (cases alignment)
      (simp_all add: printline_switch_def aligned_right_fits aligned_left_fits bind_res_Inr)
next
  case nofit: False
  show ?thesis
  proof (cases "0 \<le> sint width")
    case True
    have "unat (wlength str) < nat (sint width)"
      using nofit unat_scast_nonneg [OF True] by (simp add: word_le_nat_alt)
    then show ?thesis
      using True
      by (cases alignment)
        (simp_all add: printline_switch_def aligned_right_pads aligned_left_pads bind_res_Inr)
  next
    case False
    then have neg: "sint width < 0"
      by simp
    have "positioned str width offset = Inl length_error" for offset
      using neg assms by (rule positioned_negative_width)
    then show ?thesis
      by (cases alignment)
        (simp_all add: printline_switch_def aligned_right_def aligned_left_def centered_def
          Let_def bind_res_Inl)
  qed
qed

section \<open>Single calls and the colour scope\<close>

lemma addwch_eq: "addwch c = ([Addwstr (c_str [c])], Inr ())"
  by (simp add: addwch_def n_chars_def wstring_fill_small bind_io_lift_Inr emit_def)

lemma Color_ctor_eq:
  "Color_ctor c = ([Attron (COLOR_PAIR (Val c)), Attron A_BOLD], Inr \<lparr>Color_n = Indeterminate\<rparr>)"
  by (simp add: Color_ctor_def emit_def returns_def seq_io_Inr)

lemma Color_dtor_eq:
  "Color_dtor scoped = ([Attroff (COLOR_PAIR (Color_n scoped)), Attroff A_BOLD], Inr ())"
  by (simp add: Color_dtor_def emit_def seq_io_Inr)

lemma printline_center_Inr:
  "centered str width = Inr s \<Longrightarrow> printline str width Aligned_center = ([Addwstr (c_str s)], Inr ())"
  by (simp add: printline_def printline_switch_def bind_io_lift_Inr emit_def)

lemma printline_center_Inl:
  "centered str width = Inl e \<Longrightarrow> printline str width Aligned_center = ([], Inl e)"
  by (simp add: printline_def printline_switch_def bind_io_lift_Inl)

text \<open>One pass through the body of the loop of \<^verbatim>\<open>value_row\<close>, after the separator.\<close>

lemma cell_scope_Inr:
  assumes "centered str width = Inr s"
  shows "bind_io (Color_ctor c)
      (\<lambda>scoped. scope_exit (printline str width Aligned_center) (Color_dtor scoped)) =
    ([Attron (COLOR_PAIR (Val c)), Attron A_BOLD, Addwstr (c_str s),
      Attroff (COLOR_PAIR Indeterminate), Attroff A_BOLD], Inr ())"
  by (simp add: Color_ctor_eq Color_dtor_eq printline_center_Inr [OF assms] bind_io_Inr
      scope_exit_Inr)

lemma cell_scope_Inl:
  assumes "centered str width = Inl e"
  shows "bind_io (Color_ctor c)
      (\<lambda>scoped. scope_exit (printline str width Aligned_center) (Color_dtor scoped)) =
    ([Attron (COLOR_PAIR (Val c)), Attron A_BOLD,
      Attroff (COLOR_PAIR Indeterminate), Attroff A_BOLD], Inl e)"
  by (simp add: Color_ctor_eq Color_dtor_eq printline_center_Inl [OF assms] bind_io_Inr
      scope_exit_Inl)

lemma cell_scope_eq:
  "bind_io (Color_ctor c)
      (\<lambda>scoped. scope_exit (printline str width Aligned_center) (Color_dtor scoped)) =
    (case centered str width of
       Inl e \<Rightarrow> ([Attron (COLOR_PAIR (Val c)), Attron A_BOLD,
                  Attroff (COLOR_PAIR Indeterminate), Attroff A_BOLD], Inl e)
     | Inr s \<Rightarrow> ([Attron (COLOR_PAIR (Val c)), Attron A_BOLD, Addwstr (c_str s),
                  Attroff (COLOR_PAIR Indeterminate), Attroff A_BOLD], Inr ()))"
  by (cases "centered str width") (simp_all add: cell_scope_Inl cell_scope_Inr)

lemma ColorScheme_loop_eq:
  "ColorScheme_loop index colors =
    (map (\<lambda>i. Init_pair (index + of_nat i) COLOR_BLACK (colors ! i)) [0..<length colors], Inr ())"
proof (induction colors arbitrary: index)
  case Nil
  show ?case
    by (simp add: returns_def)
next
  case (Cons color rest)
  have "map (\<lambda>i. Init_pair (index + of_nat i) COLOR_BLACK ((color # rest) ! i))
          [0..<length (color # rest)]
      = Init_pair index COLOR_BLACK color
        # map (\<lambda>i. Init_pair (index + 1 + of_nat i) COLOR_BLACK (rest ! i)) [0..<length rest]"
    by (simp add: upt_conv_Cons map_Suc_upt [symmetric] add.assoc del: upt_Suc)
  then show ?case
    by (simp add: Cons seq_io_emit)
qed

section \<open>Rows\<close>

lemma for_lt_none: "\<not> i <s k \<Longrightarrow> for_lt i k body = returns ()"
  by (simp add: for_lt.simps [of i])











text \<open>
  With a negative cell width \<^verbatim>\<open>print\<close> writes nothing: the separator string of the top border
  cannot be built. So \<^verbatim>\<open>values\<close> is only ever reached with a cell width that is not negative.
\<close>

lemma print_negative_width:
  assumes "sint (cell_width (style this)) < 0"
  shows "fst (print this data) = []"
proof (cases data)
  case Nil
  then show ?thesis
    by (simp add: print_def n_rows_def bind_io_lift_Inl)
next
  case (Cons row0 rest)
  have "unat (scast (cell_width (style this)) :: size_t)
      = nat (2 ^ 64 + sint (cell_width (style this)))"
    using assms by (rule unat_scast_neg)
  then have "2 ^ 62 \<le> unat (scast (cell_width (style this)) :: size_t)"
    using sint_ge [of "cell_width (style this)"] by simp
  then have "wstring_fill (scast (cell_width (style this))) plain = Inl length_error" for plain
    by (rule wstring_fill_large)
  then have "sep_row this n left plain i right = ([], Inl length_error)" for n left plain i right
    by (simp add: sep_row_def bind_res_Inl bind_io_lift_Inl)
  then show ?thesis
    using Cons by (simp add: print_def n_rows_def bind_io_lift_Inr top_row_def Let_def seq_io_Inl)
qed

section \<open>Activations and deactivations on every path\<close>


















section \<open>The only assertion is the one of \<^verbatim>\<open>n_rows\<close>\<close>

lemma no_assert_bind_io:
  assumes "no_assert m" and "\<And>x. no_assert (k x)"
  shows "no_assert (bind_io m k)"
proof (cases m)
  case (Pair t r)
  then show ?thesis
    using assms(1) assms(2)
    by (cases r) (simp_all add: no_assert_def bind_io_Inl bind_io_Inr)
qed

lemma no_assert_seq_io: "no_assert m \<Longrightarrow> no_assert k \<Longrightarrow> no_assert (seq_io m k)"
  by (simp add: seq_io_def no_assert_bind_io)

lemma no_assert_returns: "no_assert (returns x)"
  by (simp add: no_assert_def returns_def)

lemma no_assert_addwch: "no_assert (addwch c)"
  by (simp add: no_assert_def addwch_eq)

lemma no_assert_end_line: "no_assert end_line"
  by (simp add: no_assert_def end_line_def emit_def)

lemma positioned_no_assert: "positioned str width offset \<noteq> Inl assertion_failed"
  by (simp add: positioned_def bind_res_def wstring_fill_def)

lemma no_assert_cell_scope:
  "no_assert (bind_io (Color_ctor c)
     (\<lambda>scoped. scope_exit (printline str width Aligned_center) (Color_dtor scoped)))"
proof (cases "centered str width")
  case (Inl e)
  then have "e \<noteq> assertion_failed"
    using positioned_no_assert by (auto simp: centered_def Let_def)
  then show ?thesis
    by (simp add: no_assert_def cell_scope_Inl [OF Inl])
next
  case (Inr s)
  show ?thesis
    by (simp add: no_assert_def cell_scope_Inr [OF Inr])
qed

lemma no_assert_value_row_loop: "no_assert (value_row_loop this intersection first row)"
  by (induction row arbitrary: first)
    (simp_all add: no_assert_returns no_assert_seq_io no_assert_addwch no_assert_cell_scope)

lemma no_assert_value_row: "no_assert (value_row this row left intersection right)"
  by (simp add: value_row_def no_assert_seq_io no_assert_addwch no_assert_end_line
      no_assert_value_row_loop)

lemma no_assert_sep_row: "no_assert (sep_row this n left plain intersection right)"
proof -
  have "no_assert (lift_io
      (bind_res (wstring_fill (scast (cell_width (style this))) plain) (\<lambda>s.
       vector_fill (scast n) (Cell_ctor s 0))))"
    by (simp add: no_assert_def lift_io_def bind_res_def wstring_fill_def vector_fill_def)
  then show ?thesis
    by (simp add: sep_row_def no_assert_bind_io no_assert_value_row)
qed

lemma no_assert_for_lt: "no_assert body \<Longrightarrow> no_assert (for_lt i k body)"
proof (induction i k body rule: for_lt.induct)
  case (1 i k body)
  then show ?case
    by (cases "i <s k") (simp_all add: for_lt.simps [of i] no_assert_seq_io no_assert_returns)
qed

lemma padding_loop_no_assert: "padding_loop this row \<noteq> Inl assertion_failed"
  by (induction row) (auto simp: bind_res_def wstring_fill_def split: sum.splits)

lemma no_assert_values_row: "no_assert (values_row this row)"
proof -
  have "no_assert (lift_io (padding_loop this row))"
    by (simp add: no_assert_def lift_io_def padding_loop_no_assert)
  then show ?thesis
    by (simp add: values_row_def Let_def no_assert_bind_io no_assert_seq_io no_assert_for_lt
        no_assert_value_row)
qed

lemma no_assert_middle_row: "no_assert (middle_row this n)"
  by (simp add: middle_row_def Let_def no_assert_sep_row)

lemma no_assert_print_loop: "no_assert (print_loop this n first data)"
  by (induction data arbitrary: first)
    (simp_all add: no_assert_returns no_assert_seq_io no_assert_middle_row no_assert_values_row)

section \<open>Runs on concrete displays\<close>

lemma fill1: "wstring_fill 1 p = Inr [p]"
  by (simp add: wstring_fill_def wstring_max_size_def)

lemma fill3: "wstring_fill 3 p = Inr [p, p, p]"
proof -
  have "wstring_fill 3 p = Inr (replicate 3 p)"
    by (simp add: wstring_fill_def wstring_max_size_def)
  then show ?thesis
    by (simp add: numeral_3_eq_3)
qed

lemma vfill0: "vector_fill 0 x = Inr []"
  by (simp add: vector_fill_def)

lemma vfill1: "vector_fill 1 x = Inr [x]"
  by (simp add: vector_fill_def vector_max_size_def)

lemma border_centered: "centered [0x2501, 0x2501, 0x2501] 3 = Inr [0x2501, 0x2501, 0x2501]"
  by (simp add: centered_fits wlength_def)


lemma centered_A_3: "centered [0x41] 3 = Inr [0x20, 0x41, 0x20]"
proof -
  have "\<not> (3 :: size_t) \<le> 1"
    by (simp add: word_le_nat_alt)
  then show ?thesis
    by (simp add: centered_def positioned_def wlength_def bind_res_def fill1 blank_def)
qed

lemma centered_AB_5: "centered [0x41, 0x42] 5 = Inr [0x20, 0x41, 0x42, 0x20, 0x20]"
  by (simp add: centered_def positioned_def wlength_def bind_res_def wstring_fill_def
      wstring_max_size_def blank_def replicate_numeral)

lemma display_3_1:
  "MatrixDisplay_ctor (MatrixStyle_ctor 3 1) =
    \<lparr>style = \<lparr>cell_width = 3, cell_height = 1, box_style = BoxStyle_default\<rparr>\<rparr>"
  by (simp add: MatrixDisplay_ctor_def MatrixStyle_ctor_def)


lemma sep_row_3:
  "sep_row \<lparr>style = \<lparr>cell_width = 3, cell_height = h, box_style = box\<rparr>\<rparr> 1 left 0x2501 i right =
   ([Addwstr (c_str [left]), Attron (COLOR_PAIR (Val 0)), Attron A_BOLD,
     Addwstr [0x2501, 0x2501, 0x2501],
     Attroff (COLOR_PAIR Indeterminate), Attroff A_BOLD, Addwstr (c_str [right]), Addch 10], Inr ())"
  by (simp add: sep_row_def fill3 vfill1 bind_res_Inr bind_io_lift_Inr
      value_row_def addwch_eq seq_io_Inr returns_def cell_scope_eq border_centered Cell_ctor_def
      end_line_def emit_def, simp add: c_str_def)

lemma values_row_3_1:
  assumes "centered str 3 = Inr s"
  shows "values_row \<lparr>style = \<lparr>cell_width = 3, cell_height = 1, box_style = BoxStyle_default\<rparr>\<rparr>
      [\<lparr>content = str, color_code = c\<rparr>] =
   ([Addwstr [0x2503], Attron (COLOR_PAIR (Val c)), Attron A_BOLD, Addwstr (c_str s),
     Attroff (COLOR_PAIR Indeterminate), Attroff A_BOLD, Addwstr [0x2503], Addch 10], Inr ())"
  by (simp add: values_row_def fill3 bind_res_Inr bind_io_lift_Inr int_div_def for_lt_none
      value_row_def addwch_eq seq_io_Inr returns_def cell_scope_eq assms
      end_line_def emit_def BoxStyle_default_def, simp add: c_str_def)


lemma print_3_1_run:
  assumes "centered str 3 = Inr s"
  shows "print (MatrixDisplay_ctor (MatrixStyle_ctor 3 1)) [[Cell_ctor str c]] =
         ([Addwstr [0x250F], Attron (COLOR_PAIR (Val 0)), Attron A_BOLD,
           Addwstr [0x2501, 0x2501, 0x2501],
           Attroff (COLOR_PAIR Indeterminate), Attroff A_BOLD, Addwstr [0x2513], Addch 10,
           Addwstr [0x2503], Attron (COLOR_PAIR (Val c)), Attron A_BOLD,
           Addwstr (c_str s),
           Attroff (COLOR_PAIR Indeterminate), Attroff A_BOLD, Addwstr [0x2503], Addch 10,
           Addwstr [0x2517], Attron (COLOR_PAIR (Val 0)), Attron A_BOLD,
           Addwstr [0x2501, 0x2501, 0x2501],
           Attroff (COLOR_PAIR Indeterminate), Attroff A_BOLD, Addwstr [0x251B], Addch 10],
          Inr ())"
  by (simp add: display_3_1 print_def n_rows_def bind_io_lift_Inr top_row_def bottom_row_def
      Cell_ctor_def values_row_3_1 [OF assms] seq_io_Inr returns_def,
      simp add: BoxStyle_default_def sep_row_3 seq_io_Inr, simp add: c_str_def seq_io_Inr)

section \<open>The properties\<close>

text \<open>
  C1. For a matrix of one row and one column that is shown with \<open>cell_width = 3\<close> and
  \<open>cell_height = 1\<close>, \<^verbatim>\<open>print\<close> ends exactly three lines: the top border, one content line and
  the bottom border. Each border line is a corner glyph, exactly three horizontal glyphs and
  the closing corner glyph. This holds for every content \<open>str\<close> and colour \<open>c\<close> of the cell;
  \<open>s\<close> is the string that \<^verbatim>\<open>centered\<close> makes of the content. The calls are given in full, then
  the number of \<^verbatim>\<open>end_line\<close> calls and the characters written.
\<close>

theorem print_1x1:
  "\<exists>s. centered str 3 = Inr s
     \<and> print (MatrixDisplay_ctor (MatrixStyle_ctor 3 1)) [[Cell_ctor str c]] =
         ([Addwstr [0x250F], Attron (COLOR_PAIR (Val 0)), Attron A_BOLD,
           Addwstr [0x2501, 0x2501, 0x2501],
           Attroff (COLOR_PAIR Indeterminate), Attroff A_BOLD, Addwstr [0x2513], Addch 10,
           Addwstr [0x2503], Attron (COLOR_PAIR (Val c)), Attron A_BOLD,
           Addwstr (c_str s),
           Attroff (COLOR_PAIR Indeterminate), Attroff A_BOLD, Addwstr [0x2503], Addch 10,
           Addwstr [0x2517], Attron (COLOR_PAIR (Val 0)), Attron A_BOLD,
           Addwstr [0x2501, 0x2501, 0x2501],
           Attroff (COLOR_PAIR Indeterminate), Attroff A_BOLD, Addwstr [0x251B], Addch 10],
          Inr ())
     \<and> lines_ended (fst (print (MatrixDisplay_ctor (MatrixStyle_ctor 3 1)) [[Cell_ctor str c]])) = 3
     \<and> chars_written (fst (print (MatrixDisplay_ctor (MatrixStyle_ctor 3 1)) [[Cell_ctor str c]])) =
         [0x250F, 0x2501, 0x2501, 0x2501, 0x2513, 10]
         @ [0x2503] @ c_str s @ [0x2503, 10]
         @ [0x2517, 0x2501, 0x2501, 0x2501, 0x251B, 10]"
proof -
  obtain s where s: "centered str 3 = Inr s"
    using centered_total [of 3 str] by auto
  show ?thesis
    apply (rule exI [of _ s])
    apply (simp only: print_3_1_run [OF s] s)
    apply (simp add: lines_ended_def chars_written_def)
    done
qed

text \<open>The cell \<^verbatim>\<open>"A"\<close> with colour 5: the content line is blank, \<^verbatim>\<open>A\<close>, blank.\<close>

theorem print_1x1_witness:
  "print (MatrixDisplay_ctor (MatrixStyle_ctor 3 1)) [[Cell_ctor [0x41] 5]] =
         ([Addwstr [0x250F], Attron (COLOR_PAIR (Val 0)), Attron A_BOLD,
           Addwstr [0x2501, 0x2501, 0x2501],
           Attroff (COLOR_PAIR Indeterminate), Attroff A_BOLD, Addwstr [0x2513], Addch 10,
           Addwstr [0x2503], Attron (COLOR_PAIR (Val 5)), Attron A_BOLD,
           Addwstr [0x20, 0x41, 0x20],
           Attroff (COLOR_PAIR Indeterminate), Attroff A_BOLD, Addwstr [0x2503], Addch 10,
           Addwstr [0x2517], Attron (COLOR_PAIR (Val 0)), Attron A_BOLD,
           Addwstr [0x2501, 0x2501, 0x2501],
           Attroff (COLOR_PAIR Indeterminate), Attroff A_BOLD, Addwstr [0x251B], Addch 10],
          Inr ())"
  using print_1x1 [of "[0x41]" 5] by (simp add: centered_A_3 c_str_def)

text \<open>
  C2, as the code has it. For every content of at most \<^verbatim>\<open>max_size()\<close> characters and every
  \<^verbatim>\<open>int\<close> width and offset: when the width is not negative and the content is at least as long
  as the width, \<^verbatim>\<open>positioned\<close> returns the content unchanged, whatever the offset: it never
  truncates. When the content is shorter than the width, the offset is not negative and
  \<open>offset + length \<le> width\<close>, it returns \<open>offset\<close> blanks, the content and
  \<open>width - (length + offset)\<close> blanks, a string of exactly \<open>width\<close> characters. With a shorter
  content and a negative offset, and with a negative width, it throws \<^verbatim>\<open>std::length_error\<close>.
\<close>

theorem positioned_spec:
  assumes wf: "length str \<le> wstring_max_size"
  shows "(0 \<le> sint width \<longrightarrow> sint width \<le> int (length str) \<longrightarrow>
            positioned str width offset = Inr str)
    \<and> (int (length str) < sint width \<longrightarrow> 0 \<le> sint offset \<longrightarrow>
          sint offset + int (length str) \<le> sint width \<longrightarrow>
            positioned str width offset =
              Inr (replicate (nat (sint offset)) blank @ str @
                   replicate (nat (sint width) - (length str + nat (sint offset))) blank)
            \<and> int (length (replicate (nat (sint offset)) blank @ str @
                   replicate (nat (sint width) - (length str + nat (sint offset))) blank))
                = sint width)
    \<and> (int (length str) < sint width \<longrightarrow> sint offset < 0 \<longrightarrow>
            positioned str width offset = Inl length_error)
    \<and> (sint width < 0 \<longrightarrow> positioned str width offset = Inl length_error)"
proof (intro conjI impI)
  note L = unat_wlength_wf [OF wf]
  {
    assume w: "0 \<le> sint width" and long: "sint width \<le> int (length str)"
    have "scast width \<le> wlength str"
      using w long by (simp add: word_le_nat_alt unat_scast_nonneg L)
    then show "positioned str width offset = Inr str"
      by (rule positioned_fits)
  }
  {
    assume short: "int (length str) < sint width" and off: "0 \<le> sint offset"
      and room: "sint offset + int (length str) \<le> sint width"
    have w: "0 \<le> sint width"
      using short by simp
    have s: "unat (wlength str) < nat (sint width)"
      using short L by simp
    have r: "unat (wlength str) + nat (sint offset) \<le> nat (sint width)"
      using off room L by simp
    show "positioned str width offset =
        Inr (replicate (nat (sint offset)) blank @ str @
             replicate (nat (sint width) - (length str + nat (sint offset))) blank)"
      using positioned_pads [OF w off r s] by (simp add: L)
    show "int (length (replicate (nat (sint offset)) blank @ str @
             replicate (nat (sint width) - (length str + nat (sint offset))) blank))
          = sint width"
      using off room short by simp
  }
  {
    assume short: "int (length str) < sint width" and off: "sint offset < 0"
    have "\<not> scast width \<le> wlength str"
      using short by (simp add: word_le_nat_alt unat_scast_nonneg L)
    with off show "positioned str width offset = Inl length_error"
      by (rule positioned_negative_offset)
  }
  {
    assume "sint width < 0"
    then show "positioned str width offset = Inl length_error"
      using wf by (rule positioned_negative_width)
  }
qed

text \<open>
  \<^verbatim>\<open>"ABCDEF"\<close> at width 3 and offset -3 comes back whole, and \<^verbatim>\<open>"AB"\<close> at width 6 and offset 1
  is padded to six characters.
\<close>

theorem positioned_spec_witness:
  "length [0x41, 0x42, 0x43, 0x44, 0x45, 0x46 :: wchar_t] \<le> wstring_max_size
   \<and> length [0x41, 0x42 :: wchar_t] \<le> wstring_max_size
   \<and> positioned [0x41, 0x42, 0x43, 0x44, 0x45, 0x46] 3 (- 3)
       = Inr [0x41, 0x42, 0x43, 0x44, 0x45, 0x46]
   \<and> positioned [0x41, 0x42] 6 1 = Inr [0x20, 0x41, 0x42, 0x20, 0x20, 0x20]"
proof -
  have wf6: "length [0x41, 0x42, 0x43, 0x44, 0x45, 0x46 :: wchar_t] \<le> wstring_max_size"
    by (simp add: wstring_max_size_def)
  have wf2: "length [0x41, 0x42 :: wchar_t] \<le> wstring_max_size"
    by (simp add: wstring_max_size_def)
  have long: "positioned [0x41, 0x42, 0x43, 0x44, 0x45, 0x46] 3 (- 3)
      = Inr [0x41, 0x42, 0x43, 0x44, 0x45, 0x46]"
    using positioned_spec [OF wf6, of 3 "- 3", THEN conjunct1] by simp
  have short: "positioned [0x41, 0x42] 6 1 = Inr [0x20, 0x41, 0x42, 0x20, 0x20, 0x20]"
    using positioned_spec [OF wf2, of 6 1, THEN conjunct2, THEN conjunct1]
    by (simp add: blank_def replicate_numeral)
  from wf6 wf2 long short show ?thesis
    by (intro conjI)
qed

text \<open>
  C2 as it is written covers every offset with \<open>offset + length \<le> width\<close>. \<^verbatim>\<open>"AB"\<close> at width 6
  and offset -1 satisfies this and is shorter than the width, yet no string of six characters
  is returned: the count of the left padding is the offset converted to \<^verbatim>\<open>size_t\<close>. The empty
  content at width -1 and offset -1 satisfies it too and is not shorter than the width, yet it
  is not returned unchanged: the comparison is made in \<^verbatim>\<open>size_t\<close>.
\<close>

theorem positioned_spec_counterexample:
  "sint (- 1 :: c_int) + int (length [0x41, 0x42 :: wchar_t]) \<le> sint (6 :: c_int)
   \<and> positioned [0x41, 0x42] 6 (- 1) = Inl length_error
   \<and> sint (- 1 :: c_int) + int (length ([] :: wstring)) \<le> sint (- 1 :: c_int)
   \<and> positioned [] (- 1) (- 1) = Inl length_error"
proof -
  have a: "positioned [0x41, 0x42] 6 (- 1) = Inl length_error"
    by (rule positioned_negative_offset) (simp_all add: wlength_def)
  have b: "positioned [] (- 1) (- 1) = Inl length_error"
    by (rule positioned_negative_width) (simp_all add: wstring_max_size_def)
  from a b show ?thesis
    by simp
qed

text \<open>
  C3. For every content shorter than the width, \<^verbatim>\<open>centered\<close> places the content after
  \<open>(width - length) div 2\<close> blanks and fills up to the width, so that an odd blank goes to
  the right. \<^verbatim>\<open>centered("AB", 6)\<close> has two blanks on either side and \<^verbatim>\<open>centered("ABC", 6)\<close> one
  blank before and two after.
\<close>

theorem centered_spec:
  "(int (length str) < sint width \<longrightarrow>
      centered str width =
        Inr (replicate ((nat (sint width) - length str) div 2) blank @ str @
             replicate (nat (sint width) - length str - (nat (sint width) - length str) div 2) blank))
   \<and> centered [0x41, 0x42] 6 = Inr [blank, blank, 0x41, 0x42, blank, blank]
   \<and> centered [0x41, 0x42, 0x43] 6 = Inr [blank, 0x41, 0x42, 0x43, blank, blank]"
proof (intro conjI impI)
  assume short: "int (length str) < sint width"
  have w: "0 \<le> sint width"
    using short by simp
  have "int (length str) < 2 ^ 31"
    using short sint_lt [of width] by simp
  then have "length str < 2 ^ 31"
    by simp
  then have L: "unat (wlength str) = length str"
    by (rule unat_wlength_small)
  have "unat (wlength str) < nat (sint width)"
    using short L by simp
  then show "centered str width =
        Inr (replicate ((nat (sint width) - length str) div 2) blank @ str @
             replicate (nat (sint width) - length str - (nat (sint width) - length str) div 2) blank)"
    using centered_pads [OF w, of str] by (simp add: L)
next
  show "centered [0x41, 0x42] 6 = Inr [blank, blank, 0x41, 0x42, blank, blank]"
    by (simp add: centered_def positioned_def wlength_def bind_res_def wstring_fill_def
        wstring_max_size_def replicate_numeral)
next
  show "centered [0x41, 0x42, 0x43] 6 = Inr [blank, 0x41, 0x42, 0x43, blank, blank]"
    by (simp add: centered_def positioned_def wlength_def bind_res_def wstring_fill_def
        wstring_max_size_def replicate_numeral)
qed

theorem centered_spec_witness:
  "int (length [0x41 :: wchar_t]) < sint (4 :: c_int)
   \<and> centered [0x41] 4 = Inr [0x20, 0x41, 0x20, 0x20]"
proof -
  have h: "int (length [0x41 :: wchar_t]) < sint (4 :: c_int)"
    by simp
  have "centered [0x41] 4 = Inr [0x20, 0x41, 0x20, 0x20]"
    using centered_spec [of "[0x41]" 4] h by (simp add: blank_def replicate_numeral)
  with h show ?thesis
    by simp
qed



text \<open>
  C5, as the code has it. The constructor of \<^verbatim>\<open>Color\<close> activates the colour pair \<open>n\<close> and then
  bold. The destructor deactivates a colour pair and then bold: the same order as the
  activation, not the reverse. Which pair the destructor names is left open here.
\<close>

theorem Color_scope:
  "fst (Color_ctor n) = [Attron (COLOR_PAIR (Val n)), Attron A_BOLD]
   \<and> (\<exists>scoped. snd (Color_ctor n) = Inr scoped)
   \<and> (\<forall>scoped. \<exists>p. Color_dtor scoped = ([Attroff (COLOR_PAIR p), Attroff A_BOLD], Inr ()))"
  by (simp add: Color_ctor_eq Color_dtor_eq)

text \<open>
  C5 as it is written asks for bold to be deactivated before the pair \<open>n\<close>. For \<open>n = 1\<close> the
  scope makes these four calls, and they are not the ones asked for.
\<close>

theorem Color_scope_counterexample:
  "bind_io (Color_ctor 1) Color_dtor =
     ([Attron (COLOR_PAIR (Val 1)), Attron A_BOLD,
       Attroff (COLOR_PAIR Indeterminate), Attroff A_BOLD], Inr ())
   \<and> fst (bind_io (Color_ctor 1) Color_dtor) \<noteq>
     [Attron (COLOR_PAIR (Val 1)), Attron A_BOLD,
      Attroff A_BOLD, Attroff (COLOR_PAIR (Val 1))]"
  by (simp add: Color_ctor_eq Color_dtor_eq bind_io_Inr)

text \<open>
  C6, as the code has it. The constructor of \<^verbatim>\<open>ColorScheme\<close> calls \<^verbatim>\<open>start_color\<close> and then, for
  every index \<open>i\<close> in order, \<^verbatim>\<open>init_pair\<close> for the pair \<open>i\<close> with black as the foreground and
  the entry \<open>i\<close> of the scheme as the background.
\<close>

theorem ColorScheme_registers:
  "ColorScheme_ctor colors =
     (Start_color # map (\<lambda>i. Init_pair (of_nat i) COLOR_BLACK (colors ! i)) [0..<length colors],
      Inr \<lparr>scheme = colors\<rparr>)
   \<and> (\<forall>i < length colors.
        fst (ColorScheme_ctor colors) ! Suc i = Init_pair (of_nat i) COLOR_BLACK (colors ! i)
        \<and> init_pair_f (fst (ColorScheme_ctor colors) ! Suc i) = COLOR_BLACK
        \<and> init_pair_b (fst (ColorScheme_ctor colors) ! Suc i) = colors ! i)"
proof -
  have eq: "ColorScheme_ctor colors =
     (Start_color # map (\<lambda>i. Init_pair (of_nat i) COLOR_BLACK (colors ! i)) [0..<length colors],
      Inr \<lparr>scheme = colors\<rparr>)"
    by (simp add: ColorScheme_ctor_def ColorScheme_loop_eq seq_io_emit seq_io_Inr returns_def)
  show ?thesis
    by (simp add: eq)
qed

theorem ColorScheme_registers_witness:
  "ColorScheme_ctor [COLOR_RED, 4] =
     ([Start_color, Init_pair 0 COLOR_BLACK COLOR_RED, Init_pair 1 COLOR_BLACK 4],
      Inr \<lparr>scheme = [COLOR_RED, 4]\<rparr>)"
  using ColorScheme_registers [of "[COLOR_RED, 4]"]
  by (simp add: upt_conv_Cons)

text \<open>
  C6 as it is written has the entry as the colour shown on a black background. For the scheme
  of the one entry red, the pair 0 has neither red as its foreground nor black as its
  background.
\<close>

theorem ColorScheme_registers_counterexample:
  "fst (ColorScheme_ctor [COLOR_RED]) = [Start_color, Init_pair 0 COLOR_BLACK COLOR_RED]
   \<and> init_pair_f (fst (ColorScheme_ctor [COLOR_RED]) ! 1) \<noteq> COLOR_RED
   \<and> init_pair_b (fst (ColorScheme_ctor [COLOR_RED]) ! 1) \<noteq> COLOR_BLACK"
  by (simp add: ColorScheme_ctor_def seq_io_emit seq_io_Inr returns_def COLOR_RED_def
      COLOR_BLACK_def)

text \<open>
  C7, as the code has it. For a matrix with at least one row, \<^verbatim>\<open>width_in_chars\<close> returns
  \<open>cell_width + 1\<close> times the length of the first row, which is the number of columns; this is
  what \<^verbatim>\<open>n_rows\<close> returns. The product is an \<^verbatim>\<open>int\<close>.
\<close>

theorem width_in_chars_columns:
  assumes "data \<noteq> []"
  shows "width_in_chars this data =
    Inr ((cell_width (style this) + 1) * of_nat (length (hd data)))"
  using assms by (cases data) (simp_all add: width_in_chars_def n_rows_def bind_res_Inr)

theorem width_in_chars_columns_witness:
  "[[Cell_ctor [] 0, Cell_ctor [] 0]] \<noteq> []
   \<and> width_in_chars (MatrixDisplay_ctor (MatrixStyle_ctor 3 1)) [[Cell_ctor [] 0, Cell_ctor [] 0]]
       = Inr 8"
  using width_in_chars_columns [of "[[Cell_ctor [] 0, Cell_ctor [] 0]]"
      "MatrixDisplay_ctor (MatrixStyle_ctor 3 1)"]
  by (simp add: MatrixDisplay_ctor_def MatrixStyle_ctor_def)

text \<open>
  C7 as it is written multiplies by the number of rows. A matrix of one row and two columns at
  \<open>cell_width = 3\<close> has the width 8, not 4.
\<close>

theorem width_in_chars_rows_counterexample:
  "width_in_chars (MatrixDisplay_ctor (MatrixStyle_ctor 3 1)) [[Cell_ctor [] 0, Cell_ctor [] 0]]
     \<noteq> Inr ((cell_width (style (MatrixDisplay_ctor (MatrixStyle_ctor 3 1))) + 1)
              * of_nat (length [[Cell_ctor [] 0, Cell_ctor [] 0]]))"
  by (simp add: width_in_chars_def n_rows_def bind_res_Inr MatrixDisplay_ctor_def
      MatrixStyle_ctor_def)

text \<open>
  C8, as the code has it. \<^verbatim>\<open>print\<close> asserts before any output that the matrix has at least
  one row: on a matrix without rows the assertion fails and nothing has been written, and on
  every other matrix the assertion holds, whatever the rows contain.
\<close>

theorem print_assertion:
  "print this [] = ([], Inl assertion_failed)
   \<and> (data \<noteq> [] \<longrightarrow> snd (print this data) \<noteq> Inl assertion_failed)"
proof
  show "print this [] = ([], Inl assertion_failed)"
    by (simp add: print_def n_rows_def bind_io_lift_Inl)
next
  show "data \<noteq> [] \<longrightarrow> snd (print this data) \<noteq> Inl assertion_failed"
  proof
    assume "data \<noteq> []"
    then obtain row0 rest where "data = row0 # rest"
      by (cases data) auto
    then have "n_rows data = Inr (of_nat (length row0))"
      by (simp add: n_rows_def)
    then have "no_assert (print this data)"
      by (simp add: print_def bind_io_lift_Inr top_row_def bottom_row_def Let_def
          no_assert_seq_io no_assert_sep_row no_assert_print_loop)
    then show "snd (print this data) \<noteq> Inl assertion_failed"
      by (simp add: no_assert_def)
  qed
qed

theorem print_assertion_witness:
  "[[]] \<noteq> ([] :: Cell list list)
   \<and> print (MatrixDisplay_ctor (MatrixStyle_ctor 3 1)) [] = ([], Inl assertion_failed)
   \<and> snd (print (MatrixDisplay_ctor (MatrixStyle_ctor 3 1)) [[]]) \<noteq> Inl assertion_failed"
  using print_assertion [of "MatrixDisplay_ctor (MatrixStyle_ctor 3 1)" "[[]]"]
  by simp

text \<open>
  C8 as it is written has the assertion also ask for every row to be non-empty. The matrix of
  one empty row passes it: \<^verbatim>\<open>print\<close> writes the three lines of an empty box and returns.
\<close>

theorem print_assertion_counterexample:
  "print (MatrixDisplay_ctor (MatrixStyle_ctor 3 1)) [[]] =
     ([Addwstr [0x250F], Addwstr [0x2513], Addch 10,
       Addwstr [0x2503], Addwstr [0x2503], Addch 10,
       Addwstr [0x2517], Addwstr [0x251B], Addch 10], Inr ())"
  by (simp add: display_3_1 print_def n_rows_def bind_io_lift_Inr top_row_def bottom_row_def
      sep_row_def fill3 vfill0 bind_res_Inr values_row_def int_div_def for_lt_none
      value_row_def addwch_eq seq_io_Inr returns_def end_line_def emit_def BoxStyle_default_def
      c_str_def)



text \<open>
  C10. For every content, width and alignment, \<^verbatim>\<open>printline\<close> writes the string that
  \<^verbatim>\<open>centered\<close> computes, and fails where \<^verbatim>\<open>centered\<close> fails. The content is any string that can
  exist, that is, of at most \<^verbatim>\<open>max_size()\<close> characters.
\<close>

theorem printline_always_centered:
  assumes "length str \<le> wstring_max_size"
  shows "printline str width alignment =
    (case centered str width of
       Inl e \<Rightarrow> ([], Inl e)
     | Inr s \<Rightarrow> ([Addwstr (c_str s)], Inr ()))"
  by (cases "centered str width")
    (simp_all add: printline_def printline_switch_eq [OF assms] bind_io_lift_Inl
      bind_io_lift_Inr emit_def)

text \<open>\<^verbatim>\<open>"AB"\<close> at width 5 comes out centred for the alignments right and left.\<close>

theorem printline_always_centered_witness:
  "length [0x41, 0x42 :: wchar_t] \<le> wstring_max_size
   \<and> printline [0x41, 0x42] 5 Aligned_right = ([Addwstr [0x20, 0x41, 0x42, 0x20, 0x20]], Inr ())
   \<and> printline [0x41, 0x42] 5 Aligned_left = ([Addwstr [0x20, 0x41, 0x42, 0x20, 0x20]], Inr ())"
proof -
  have h: "length [0x41, 0x42 :: wchar_t] \<le> wstring_max_size"
    by (simp add: wstring_max_size_def)
  have "printline [0x41, 0x42] 5 alignment = ([Addwstr [0x20, 0x41, 0x42, 0x20, 0x20]], Inr ())"
    for alignment
    using printline_always_centered [OF h, of 5 alignment]
    by (simp add: centered_AB_5 c_str_def)
  with h show ?thesis
    by simp
qed

end
